theory Spec2Isabelle
  imports Main "HOL-Library.Word" "HOL-Library.AList"
begin

section \<open>Python strings\<close>

text \<open>
  A Python \<open>str\<close> is a sequence of Unicode code points.  The literals of \<open>main.py\<close>
  contain code points beyond ASCII (U+274C, U+26A0, U+FE0F, U+1F501, ...), and
  \<open>str.strip\<close> removes Unicode white space, so a string is modelled as the list of its
  code points and not as a list of bytes.
\<close>

type_synonym ustr = "nat list"

text \<open>An ASCII literal, as the list of its code points.\<close>

definition u :: "string \<Rightarrow> ustr" where
  "u s = map of_char s"

text \<open>
  \<open>str.isspace\<close> on one code point: the code points CPython's
  \<open>_PyUnicode_IsWhitespace\<close> accepts.
\<close>

definition py_isspace :: "nat \<Rightarrow> bool" where
  "py_isspace c \<longleftrightarrow>
     (0x09 \<le> c \<and> c \<le> 0x0D) \<or> (0x1C \<le> c \<and> c \<le> 0x20) \<or> c = 0x85 \<or> c = 0xA0 \<or>
     c = 0x1680 \<or> (0x2000 \<le> c \<and> c \<le> 0x200A) \<or> c = 0x2028 \<or> c = 0x2029 \<or>
     c = 0x202F \<or> c = 0x205F \<or> c = 0x3000"

text \<open>\<open>s.strip()\<close>: white space removed at both ends.\<close>

definition py_strip :: "ustr \<Rightarrow> ustr" where
  "py_strip s = rev (dropWhile py_isspace (rev (dropWhile py_isspace s)))"

text \<open>
  \<open>s.lower()\<close>.  On an ASCII code point the result is written out: \<open>A\<close>..\<open>Z\<close> move to
  \<open>a\<close>..\<open>z\<close>, every other ASCII code point stays.  The lower-case mapping of the
  code points from 128 on is Python's Unicode table, which is not part of the
  repository; it is the parameter \<open>tbl\<close>, which receives the whole string and the
  position (the mapping of U+03A3 depends on its neighbours) and returns the code points
  that replace the one at that position.
\<close>

definition ascii_lower :: "nat \<Rightarrow> nat" where
  "ascii_lower c = (if 65 \<le> c \<and> c \<le> 90 then c + 32 else c)"

definition py_lower :: "(ustr \<Rightarrow> nat \<Rightarrow> ustr) \<Rightarrow> ustr \<Rightarrow> ustr" where
  "py_lower tbl s =
     concat (map (\<lambda>i. if s ! i < 128 then [ascii_lower (s ! i)] else tbl s i) [0..<length s])"

text \<open>\<open>s.startswith(p)\<close>.\<close>

definition py_startswith :: "ustr \<Rightarrow> ustr \<Rightarrow> bool" where
  "py_startswith s p \<longleftrightarrow> take (length p) s = p"

section \<open>The generation backends and the state of a run\<close>

text \<open>
  An exception is kept as the text \<open>str(e)\<close>, the only thing the program reads from it.
  The exceptions of the model are those of class \<open>Exception\<close>, which the handlers of
  \<open>main.py\<close> catch.  \<open>KeyboardInterrupt\<close> is not of that class: it is the interrupt
  that ends the loop, and it appears in the model only there, as the end of the list of
  polled messages.
\<close>

type_synonym exn = ustr

text \<open>\<open>groq_primary_llm\<close> and \<open>groq_fallback_llm\<close>.\<close>

datatype backend = Primary | Fallback

text \<open>
  What lies outside the program.  \<open>invoke env b prompt w\<close> is the evaluation of
  \<open>llm.invoke(prompt).content\<close> on backend \<open>b\<close> when the outside world is in state
  \<open>w\<close>: \<open>Inr\<close> the content string, or \<open>Inl\<close> the exception that the expression
  \<open>llm.invoke(prompt).content.strip()\<close> raises, together with the next state of the
  world.  A backend may answer the same prompt differently each time.

  \<open>print_error env w line\<close> tells whether \<open>print(line)\<close> raises when the outside world
  is in state \<open>w\<close> (the standard output cannot encode the line, its pipe is closed, the
  disk is full): \<open>None\<close> when the call returns, or the exception.
  \<open>print_exc_error env w e\<close> tells the same of \<open>traceback.print_exc()\<close>, called while the
  exception \<open>e\<close> is handled; it writes to the standard error stream.

  \<open>lower_tbl\<close> is the non-ASCII part of \<open>str.lower\<close>, \<open>output_topic\<close> is
  \<open>KAFKA_OUTPUT_TOPIC\<close>.
\<close>

record 'w env =
  invoke :: "backend \<Rightarrow> ustr \<Rightarrow> 'w \<Rightarrow> (exn + ustr) \<times> 'w"
  print_error :: "'w \<Rightarrow> ustr \<Rightarrow> exn option"
  print_exc_error :: "'w \<Rightarrow> exn \<Rightarrow> exn option"
  lower_tbl :: "ustr \<Rightarrow> nat \<Rightarrow> ustr"
  output_topic :: ustr

text \<open>JSON values as \<open>json.loads\<close> builds them; a float is kept as its 64 bits.\<close>

datatype json =
  JNull | JBool bool | JInt int | JFloat "64 word" | JStr ustr
  | JArr "json list" | JObj "(ustr \<times> json) list"

text \<open>
  The state of a run: the outside world, the log of the backend invocations made so far
  (backend, prompt, outcome; in the order they were made), the lines that \<open>print\<close> has
  written, and the records handed to the producer for the output topic.
\<close>

record 'w sys =
  world :: 'w
  calls :: "(backend \<times> ustr \<times> (exn + ustr)) list"
  stdout :: "ustr list"
  produced :: "json list"

text \<open>
  \<open>print(line)\<close>: the line is written, or the call raises and nothing is written.
\<close>

definition py_print :: "'w env \<Rightarrow> ustr \<Rightarrow> 'w sys \<Rightarrow> (exn + unit) \<times> 'w sys" where
  "py_print env line s =
     (case print_error env (world s) line of
        None \<Rightarrow> (Inr (), s\<lparr>stdout := stdout s @ [line]\<rparr>)
      | Some e \<Rightarrow> (Inl e, s))"

text \<open>\<open>llm.invoke(prompt).content.strip()\<close>, logged.\<close>

definition llm_invoke ::
  "'w env \<Rightarrow> backend \<Rightarrow> ustr \<Rightarrow> 'w sys \<Rightarrow> (exn + ustr) \<times> 'w sys" where
  "llm_invoke env b prompt s =
     (let (r, w) = invoke env b prompt (world s)
      in (map_sum id py_strip r, s\<lparr>world := w, calls := calls s @ [(b, prompt, r)]\<rparr>))"

section \<open>Prompt templates\<close>

text \<open>\<open>sentiment_prompt.format(notes=notes)\<close>.\<close>

definition sentiment_prompt_format :: "ustr \<Rightarrow> ustr" where
  "sentiment_prompt_format notes =
     u ''\<newline>Classify the following cold call notes as one of the following sentiment labels:\<newline>'' @
     u ''- Positive\<newline>'' @
     u ''- Neutral / Follow-up Required\<newline>'' @
     u ''- Negative\<newline>'' @
     u ''\<newline>'' @
     u ''Notes:\<newline>'' @
     notes @ u ''\<newline>'' @
     u ''\<newline>'' @
     u ''Return only the label and reason.\<newline>''"

text \<open>\<open>action_prompt.format(notes=notes, sentiment=sentiment)\<close>; 34 is the double quote.\<close>

definition action_prompt_format :: "ustr \<Rightarrow> ustr \<Rightarrow> ustr" where
  "action_prompt_format notes sentiment =
     u ''\<newline>You are a sales assistant for a Kafka-based platform called Condense.\<newline>'' @
     u ''\<newline>'' @
     u ''The following are notes from a recent cold call:\<newline>'' @
     [34] @ notes @ [34] @ u ''\<newline>'' @
     u ''\<newline>'' @
     u ''Sentiment label: '' @ sentiment @ u ''\<newline>'' @
     u ''\<newline>'' @
     u ''Based on this:\<newline>'' @
     u ''- If the sentiment label is '' @ [34] @ u ''Positive'' @ [34] @ u '':\<newline>'' @
     u ''  - Carefully read the caller notes and come up with the sales reachout plan step by step which should be customised based on caller notes. Write ready-to-consume reachout and sales plan.\<newline>'' @
     u ''\<newline>'' @
     u ''- If the sentiment label is '' @ [34] @ u ''Follow-up Required'' @ [34] @ u '' or '' @ [34] @ u ''Neutral'' @ [34] @ u '':\<newline>'' @
     u ''  - Check the caller notes.\<newline>'' @
     u ''  - If there are signs of mild interest, or open-ended comments, come up with the sales reachout plan step by step which should be customised based on caller notes. Write ready-to-consume reachout and sales plan.\<newline>'' @
     u ''\<newline>'' @
     u ''- If the sentiment label is '' @ [34] @ u ''Negative'' @ [34] @ u '':\<newline>'' @
     u ''  - Do not suggest any follow-up. Just say: '' @ [34] @ u ''No further action recommended based on negative sentiment.'' @ [34] @ u ''\<newline>'' @
     u ''\<newline>'' @
     u ''Respond clearly and helpfully.\<newline>''"


section \<open>The core function\<close>

text \<open>
  The value \<open>classify_and_generate\<close> returns is a dict with string keys and string values,
  kept as the list of its items in insertion order.
\<close>

type_synonym enrichment = "(ustr \<times> ustr) list"

text \<open>The lines that lines 104 and 127 print when the primary backend has raised \<open>e\<close>.\<close>

definition sentiment_failed_line :: "exn \<Rightarrow> ustr" where
  "sentiment_failed_line e =
     [0x26A0, 0xFE0F] @ u '' Primary sentiment LLM failed: '' @ e @
     [10, 0x1F501] @ u '' Using fallback.''"

definition action_failed_line :: "exn \<Rightarrow> ustr" where
  "action_failed_line e =
     [0x26A0, 0xFE0F] @ u '' Primary action LLM failed: '' @ e @
     [10, 0x1F501] @ u '' Using fallback.''"

text \<open>
  Lines 123 to 138: the action prompt, primary then fallback, and the final return.
  The \<open>print\<close> of line 127 stands in the handler of the outer \<open>try\<close> and before the
  inner one, so an exception it raises leaves the function.
\<close>

definition generate_actions ::
  "'w env \<Rightarrow> ustr \<Rightarrow> ustr \<Rightarrow> 'w sys \<Rightarrow> (exn + enrichment) \<times> 'w sys" where
  "generate_actions env notes sentiment s =
     (let prompt = action_prompt_format notes sentiment;
          return = (\<lambda>action_items s'.
            (Inr [(u ''Caller Notes'', notes),
                  (u ''Sentiment Label'', sentiment),
                  (u ''Reason'', u ''Sentiment identified via Groq LLM''),
                  (u ''Next Action Items'', action_items)], s'))
      in case llm_invoke env Primary prompt s of
           (Inr a, s1) \<Rightarrow> return a s1
         | (Inl e, s1) \<Rightarrow>
             (case py_print env (action_failed_line e) s1 of
                (Inl x, s2) \<Rightarrow> (Inl x, s2)
              | (Inr _, s2) \<Rightarrow>
                  (case llm_invoke env Fallback prompt s2 of
                     (Inr a, s3) \<Rightarrow> return a s3
                   | (Inl e2, s3) \<Rightarrow>
                       return ([0x274C] @ u '' Both LLMs failed for action generation: '' @ e2)
                         s3)))"

text \<open>Lines 115 to 138: what follows a successful classification.\<close>

definition after_classification ::
  "'w env \<Rightarrow> ustr \<Rightarrow> ustr \<Rightarrow> 'w sys \<Rightarrow> (exn + enrichment) \<times> 'w sys" where
  "after_classification env notes sentiment s =
     (if py_startswith (py_lower (lower_tbl env) sentiment) (u ''negative'')
      then (Inr [(u ''Caller Notes'', notes),
                 (u ''Sentiment Label'', sentiment),
                 (u ''Reason'', u ''Negative sentiment detected''),
                 (u ''Next Action Items'',
                    [0x274C] @ u '' No action recommended due to negative sentiment.'')], s)
      else generate_actions env notes sentiment s)"

text \<open>
  \<open>classify_and_generate(notes)\<close>.  The result is \<open>Inr\<close> the returned dict, or \<open>Inl\<close>
  an exception that leaves the function: the one raised by the \<open>print\<close> of line 104 or
  of line 127, which no \<open>try\<close> of the function covers.
\<close>

definition classify_and_generate ::
  "'w env \<Rightarrow> ustr \<Rightarrow> 'w sys \<Rightarrow> (exn + enrichment) \<times> 'w sys" where
  "classify_and_generate env notes s =
     (case llm_invoke env Primary (sentiment_prompt_format notes) s of
        (Inr sentiment, s1) \<Rightarrow> after_classification env notes sentiment s1
      | (Inl e, s1) \<Rightarrow>
          (case py_print env (sentiment_failed_line e) s1 of
             (Inl x, s2) \<Rightarrow> (Inl x, s2)
           | (Inr _, s2) \<Rightarrow>
               (case llm_invoke env Fallback (sentiment_prompt_format notes) s2 of
                  (Inr sentiment, s3) \<Rightarrow> after_classification env notes sentiment s3
                | (Inl e2, s3) \<Rightarrow>
                    (Inr [(u ''Caller Notes'', notes),
                          (u ''Sentiment Label'', u ''Unknown''),
                          (u ''Reason'',
                             [0x274C] @ u '' Both LLMs failed for sentiment: '' @ e2),
                          (u ''Next Action Items'',
                             [0x274C] @ u '' Skipped due to classification error'')], s3))))"

section \<open>The Kafka loop\<close>









section \<open>Scripted worlds\<close>

text \<open>
  Concrete outside worlds for running the model: the state is the list of the outcomes
  still to come, and every invocation takes the next one, whatever the backend and the
  prompt.  \<open>ascii_tbl\<close> leaves the code points from 128 on as they are.  In \<open>test_env\<close>
  every \<open>print\<close> returns; in \<open>broken_stdout_env\<close> the standard output is a closed pipe
  and every \<open>print\<close> raises.
\<close>

fun scripted :: "backend \<Rightarrow> ustr \<Rightarrow> (exn + ustr) list \<Rightarrow> (exn + ustr) \<times> (exn + ustr) list" where
  "scripted b prompt [] = (Inl (u ''script exhausted''), [])"
| "scripted b prompt (r # rs) = (r, rs)"

definition ascii_tbl :: "ustr \<Rightarrow> nat \<Rightarrow> ustr" where
  "ascii_tbl s i = [s ! i]"

definition test_env :: "(exn + ustr) list env" where
  "test_env =
     \<lparr>invoke = scripted, print_error = (\<lambda>w line. None), print_exc_error = (\<lambda>w e. None),
      lower_tbl = ascii_tbl, output_topic = u ''enriched''\<rparr>"


definition start :: "'w \<Rightarrow> 'w sys" where
  "start w = \<lparr>world = w, calls = [], stdout = [], produced = []\<rparr>"

section \<open>Reading the invocation log\<close>

text \<open>The invocations made between the state \<open>s\<close> and the later state \<open>s'\<close>.\<close>

definition new_calls :: "'w sys \<Rightarrow> 'w sys \<Rightarrow> (backend \<times> ustr \<times> (exn + ustr)) list" where
  "new_calls s s' = drop (length (calls s)) (calls s')"

text \<open>The attempts made with the prompt \<open>p\<close>: backend and outcome, in order.\<close>

definition attempts ::
  "ustr \<Rightarrow> (backend \<times> ustr \<times> (exn + ustr)) list \<Rightarrow> (backend \<times> (exn + ustr)) list" where
  "attempts p cs = map (\<lambda>(b, q, r). (b, r)) (filter (\<lambda>(b, q, r). q = p) cs)"

text \<open>
  The two shapes of a failover: the primary backend answers and nothing follows, or the
  primary backend fails and the fallback backend is tried once, whatever its outcome.
\<close>

fun chain_shape :: "(backend \<times> (exn + ustr)) list \<Rightarrow> bool" where
  "chain_shape [(Primary, Inr c)] = True"
| "chain_shape [(Primary, Inl e), (Fallback, r)] = True"
| "chain_shape xs = False"

section \<open>Helper lemmas\<close>

lemma prompts_differ: "sentiment_prompt_format n \<noteq> action_prompt_format n' l"
proof -
  have "sentiment_prompt_format n ! 1 = 67"
    by (simp add: sentiment_prompt_format_def u_def)
  moreover have "action_prompt_format n' l ! 1 = 89"
    by (simp add: action_prompt_format_def u_def)
  ultimately show ?thesis by auto
qed

lemma generate_actions_primary:
  assumes "invoke env Primary (action_prompt_format notes l) (world s) = (Inr a, w1)"
  shows "generate_actions env notes l s =
    (Inr [(u ''Caller Notes'', notes), (u ''Sentiment Label'', l),
          (u ''Reason'', u ''Sentiment identified via Groq LLM''),
          (u ''Next Action Items'', py_strip a)],
     s\<lparr>world := w1, calls := calls s @ [(Primary, action_prompt_format notes l, Inr a)]\<rparr>)"
  using assms by (simp add: generate_actions_def llm_invoke_def Let_def)

lemma generate_actions_fallback:
  assumes "invoke env Primary (action_prompt_format notes l) (world s) = (Inl e, w1)"
    and "print_error env w1 (action_failed_line e) = None"
    and "invoke env Fallback (action_prompt_format notes l) w1 = (r, w2)"
  shows "generate_actions env notes l s =
    (Inr [(u ''Caller Notes'', notes), (u ''Sentiment Label'', l),
          (u ''Reason'', u ''Sentiment identified via Groq LLM''),
          (u ''Next Action Items'',
             case r of Inr a \<Rightarrow> py_strip a
             | Inl e2 \<Rightarrow> [0x274C] @ u '' Both LLMs failed for action generation: '' @ e2)],
     s\<lparr>world := w2,
       calls := calls s @ [(Primary, action_prompt_format notes l, Inl e),
                          (Fallback, action_prompt_format notes l, r)],
       stdout := stdout s @ [action_failed_line e]\<rparr>)"
  using assms
  by (cases r) (simp_all add: generate_actions_def llm_invoke_def py_print_def Let_def)

lemma generate_actions_print_raises:
  assumes "invoke env Primary (action_prompt_format notes l) (world s) = (Inl e, w1)"
    and "print_error env w1 (action_failed_line e) = Some x"
  shows "generate_actions env notes l s =
    (Inl x, s\<lparr>world := w1,
              calls := calls s @ [(Primary, action_prompt_format notes l, Inl e)]\<rparr>)"
  using assms by (simp add: generate_actions_def llm_invoke_def py_print_def Let_def)

lemma after_classification_negative:
  assumes "py_startswith (py_lower (lower_tbl env) l) (u ''negative'')"
  shows "after_classification env notes l s =
    (Inr [(u ''Caller Notes'', notes), (u ''Sentiment Label'', l),
          (u ''Reason'', u ''Negative sentiment detected''),
          (u ''Next Action Items'',
             [0x274C] @ u '' No action recommended due to negative sentiment.'')], s)"
  using assms by (simp add: after_classification_def)

lemma after_classification_other:
  assumes "\<not> py_startswith (py_lower (lower_tbl env) l) (u ''negative'')"
  shows "after_classification env notes l s = generate_actions env notes l s"
  using assms by (simp add: after_classification_def)

lemma classify_primary:
  assumes "invoke env Primary (sentiment_prompt_format notes) (world s) = (Inr c, w1)"
  shows "classify_and_generate env notes s =
    after_classification env notes (py_strip c)
      (s\<lparr>world := w1, calls := calls s @ [(Primary, sentiment_prompt_format notes, Inr c)]\<rparr>)"
  using assms by (simp add: classify_and_generate_def llm_invoke_def)

lemma classify_fallback:
  assumes "invoke env Primary (sentiment_prompt_format notes) (world s) = (Inl e, w0)"
    and "print_error env w0 (sentiment_failed_line e) = None"
    and "invoke env Fallback (sentiment_prompt_format notes) w0 = (Inr c, w1)"
  shows "classify_and_generate env notes s =
    after_classification env notes (py_strip c)
      (s\<lparr>stdout := stdout s @ [sentiment_failed_line e],
         world := w1,
         calls := calls s @ [(Primary, sentiment_prompt_format notes, Inl e),
                            (Fallback, sentiment_prompt_format notes, Inr c)]\<rparr>)"
  using assms by (simp add: classify_and_generate_def llm_invoke_def py_print_def)

lemma classify_both_fail:
  assumes "invoke env Primary (sentiment_prompt_format notes) (world s) = (Inl e, w0)"
    and "print_error env w0 (sentiment_failed_line e) = None"
    and "invoke env Fallback (sentiment_prompt_format notes) w0 = (Inl e2, w1)"
  shows "classify_and_generate env notes s =
    (Inr [(u ''Caller Notes'', notes), (u ''Sentiment Label'', u ''Unknown''),
          (u ''Reason'', [0x274C] @ u '' Both LLMs failed for sentiment: '' @ e2),
          (u ''Next Action Items'', [0x274C] @ u '' Skipped due to classification error'')],
      s\<lparr>world := w1,
         calls := calls s @ [(Primary, sentiment_prompt_format notes, Inl e),
                            (Fallback, sentiment_prompt_format notes, Inl e2)],
         stdout := stdout s @ [sentiment_failed_line e]\<rparr>)"
  using assms by (simp add: classify_and_generate_def llm_invoke_def py_print_def)


lemma new_calls_append: "calls s' = calls s @ xs \<Longrightarrow> new_calls s s' = xs"
  by (simp add: new_calls_def)

lemma classify_and_generate_returned:
  assumes "classify_and_generate env notes s = (Inr r, s')"
  shows "\<exists>l rs a. r = [(u ''Caller Notes'', notes), (u ''Sentiment Label'', l),
                        (u ''Reason'', rs), (u ''Next Action Items'', a)]"
  using assms
  by (auto simp: classify_and_generate_def after_classification_def generate_actions_def Let_def
        split: prod.splits sum.splits if_splits)

lemma classify_and_generate_total:
  assumes "\<And>w e. print_error env w (sentiment_failed_line e) = None"
    and "\<And>w e. print_error env w (action_failed_line e) = None"
  shows "\<exists>l r a s'. classify_and_generate env notes s =
      (Inr [(u ''Caller Notes'', notes), (u ''Sentiment Label'', l),
            (u ''Reason'', r), (u ''Next Action Items'', a)], s')"
  by (simp add: classify_and_generate_def after_classification_def generate_actions_def Let_def
        py_print_def assms split: prod.splits sum.splits)


section \<open>The engine returns a result\<close>


lemma py_lower_ascii:
  assumes "list_all (\<lambda>c. c < 128) s"
  shows "py_lower tbl s = map ascii_lower s"
proof -
  have "map (\<lambda>i. if s ! i < 128 then [ascii_lower (s ! i)] else tbl s i) [0..<length s] =
        map (\<lambda>i. [ascii_lower (s ! i)]) [0..<length s]"
    using assms by (simp add: list_all_length)
  also have "\<dots> = map (\<lambda>c. [ascii_lower c]) (map ((!) s) [0..<length s])"
    by simp
  also have "\<dots> = map (\<lambda>c. [ascii_lower c]) s"
    by (simp only: map_nth)
  finally show ?thesis
    by (simp add: py_lower_def concat_map_singleton)
qed

text \<open>The facts that evaluate the gate on a concrete ASCII label.\<close>

lemmas gate_eval =
  test_env_def py_lower_ascii u_def py_strip_def py_isspace_def py_startswith_def ascii_lower_def

lemma positive_run:
  "fst (classify_and_generate test_env (u ''hi'') (start [Inr (u ''Positive''), Inr (u ''Call'')])) =
     Inr [(u ''Caller Notes'', u ''hi''), (u ''Sentiment Label'', py_strip (u ''Positive'')),
          (u ''Reason'', u ''Sentiment identified via Groq LLM''),
          (u ''Next Action Items'', py_strip (u ''Call''))]"
proof -
  let ?s = "start [Inr (u ''Positive''), Inr (u ''Call'')]"
  have p: "invoke test_env Primary (sentiment_prompt_format (u ''hi'')) (world ?s) =
     (Inr (u ''Positive''), [Inr (u ''Call'')])"
    by (simp add: test_env_def start_def)
  have g: "\<not> py_startswith (py_lower (lower_tbl test_env) (py_strip (u ''Positive'')))
      (u ''negative'')"
    by (simp add: gate_eval)
  have a: "invoke test_env Primary (action_prompt_format (u ''hi'') (py_strip (u ''Positive'')))
       (world (?s\<lparr>world := [Inr (u ''Call'')],
                 calls := calls ?s @ [(Primary, sentiment_prompt_format (u ''hi''),
                                       Inr (u ''Positive''))]\<rparr>)) =
     (Inr (u ''Call''), [])"
    by (simp add: test_env_def)
  show ?thesis
    by (simp only: classify_primary [OF p] after_classification_other [OF g]
          generate_actions_primary [OF a] fst_conv)
qed



text \<open>
  Claim C10.  Whichever of its three returns the engine takes, the field \<open>Caller Notes\<close>
  of the returned dict is the notes string the engine was called with, unchanged; and
  when the prints of lines 104 and 127 return, the engine does return such a dict.
\<close>

theorem caller_notes_unchanged:
  "(classify_and_generate env notes s = (Inr r, s') \<longrightarrow>
      map_of r (u ''Caller Notes'') = Some notes) \<and>
   ((\<forall>w e. print_error env w (sentiment_failed_line e) = None \<and>
            print_error env w (action_failed_line e) = None) \<longrightarrow>
      (\<exists>r s'. classify_and_generate env notes s = (Inr r, s') \<and>
         map_of r (u ''Caller Notes'') = Some notes))"
proof (intro conjI impI)
  assume "classify_and_generate env notes s = (Inr r, s')"
  from classify_and_generate_returned [OF this]
  show "map_of r (u ''Caller Notes'') = Some notes"
    by auto
next
  assume "\<forall>w e. print_error env w (sentiment_failed_line e) = None \<and>
            print_error env w (action_failed_line e) = None"
  then obtain l rs a s1 where "classify_and_generate env notes s =
      (Inr [(u ''Caller Notes'', notes), (u ''Sentiment Label'', l),
            (u ''Reason'', rs), (u ''Next Action Items'', a)], s1)"
    using classify_and_generate_total [of env "notes" s] by auto
  then show "\<exists>r s'. classify_and_generate env notes s = (Inr r, s') \<and>
         map_of r (u ''Caller Notes'') = Some notes"
    by simp
qed

text \<open>The hypotheses of C10 hold in \<open>test_env\<close>, on a run that returns the dict of the action stage.\<close>

theorem caller_notes_unchanged_witness:
  "fst (classify_and_generate test_env (u ''hi'') (start [Inr (u ''Positive''), Inr (u ''Call'')])) =
     Inr [(u ''Caller Notes'', u ''hi''), (u ''Sentiment Label'', py_strip (u ''Positive'')),
          (u ''Reason'', u ''Sentiment identified via Groq LLM''),
          (u ''Next Action Items'', py_strip (u ''Call''))] \<and>
   map_of [(u ''Caller Notes'', u ''hi''), (u ''Sentiment Label'', py_strip (u ''Positive'')),
          (u ''Reason'', u ''Sentiment identified via Groq LLM''),
          (u ''Next Action Items'', py_strip (u ''Call''))] (u ''Caller Notes'') =
     Some (u ''hi'') \<and>
   (\<forall>w e. print_error test_env w (sentiment_failed_line e) = None \<and>
          print_error test_env w (action_failed_line e) = None) \<and>
   (\<exists>r s'. classify_and_generate test_env (u ''hi'')
              (start [Inr (u ''Positive''), Inr (u ''Call'')]) = (Inr r, s') \<and>
      map_of r (u ''Caller Notes'') = Some (u ''hi''))"
proof -
  let ?s = "start [Inr (u ''Positive''), Inr (u ''Call'')]"
  let ?R = "[(u ''Caller Notes'', u ''hi''), (u ''Sentiment Label'', py_strip (u ''Positive'')),
          (u ''Reason'', u ''Sentiment identified via Groq LLM''),
          (u ''Next Action Items'', py_strip (u ''Call''))]"
  have ok: "\<forall>w e. print_error test_env w (sentiment_failed_line e) = None \<and>
          print_error test_env w (action_failed_line e) = None"
    by (simp add: test_env_def)
  have run: "classify_and_generate test_env (u ''hi'') ?s =
      (Inr ?R, snd (classify_and_generate test_env (u ''hi'') ?s))"
    using positive_run by (simp add: prod_eq_iff)
  note T = caller_notes_unchanged [of test_env "u ''hi''" ?s ?R
      "snd (classify_and_generate test_env (u ''hi'') ?s)"]
  note a = T [THEN conjunct1, THEN mp, OF run]
  note b = T [THEN conjunct2, THEN mp, OF ok]
  show ?thesis
    by (intro conjI positive_run a ok b)
qed

section \<open>Classification fails on both backends\<close>

text \<open>
  Claim C2, as amended.  When the primary and the fallback backend both raise on the
  classification prompt (the fallback is tried once the line of line 104 is printed),
  the engine returns at once: \<open>Sentiment Label\<close> is \<open>Unknown\<close>, \<open>Reason\<close> is the text
  \<open>Both LLMs failed for sentiment:\<close> after U+274C and a space, followed by the
  fallback's exception, and \<open>Next Action Items\<close> is U+274C, a space and
  \<open>Skipped due to classification error\<close>.  The run made exactly the two invocations with
  the classification prompt, and none with an action prompt.
\<close>

theorem classification_failure_is_terminal:
  assumes "invoke env Primary (sentiment_prompt_format notes) (world s) = (Inl e, w0)"
    and "print_error env w0 (sentiment_failed_line e) = None"
    and "invoke env Fallback (sentiment_prompt_format notes) w0 = (Inl e2, w1)"
  shows "fst (classify_and_generate env notes s) =
      Inr [(u ''Caller Notes'', notes), (u ''Sentiment Label'', u ''Unknown''),
           (u ''Reason'', [0x274C] @ u '' Both LLMs failed for sentiment: '' @ e2),
           (u ''Next Action Items'', [0x274C] @ u '' Skipped due to classification error'')] \<and>
    new_calls s (snd (classify_and_generate env notes s)) =
      [(Primary, sentiment_prompt_format notes, Inl e),
       (Fallback, sentiment_prompt_format notes, Inl e2)] \<and>
    (\<forall>n l. attempts (action_prompt_format n l)
              (new_calls s (snd (classify_and_generate env notes s))) = [])"
proof -
  note run = classify_both_fail [OF assms]
  have log: "new_calls s (snd (classify_and_generate env notes s)) =
      [(Primary, sentiment_prompt_format notes, Inl e),
       (Fallback, sentiment_prompt_format notes, Inl e2)]"
    by (rule new_calls_append) (simp add: run)
  have "\<forall>n l. attempts (action_prompt_format n l)
              (new_calls s (snd (classify_and_generate env notes s))) = []"
    unfolding log by (simp add: attempts_def prompts_differ)
  with log show ?thesis by (simp add: run)
qed

text \<open>The hypotheses of C2 hold in the scripted world whose two outcomes are exceptions.\<close>

theorem classification_failure_is_terminal_witness:
  "invoke test_env Primary (sentiment_prompt_format (u ''hi''))
       (world (start [Inl (u ''timeout''), Inl (u ''boom'')])) =
     (Inl (u ''timeout''), [Inl (u ''boom'')]) \<and>
   print_error test_env [Inl (u ''boom'')] (sentiment_failed_line (u ''timeout'')) = None \<and>
   invoke test_env Fallback (sentiment_prompt_format (u ''hi'')) [Inl (u ''boom'')] =
     (Inl (u ''boom''), []) \<and>
   fst (classify_and_generate test_env (u ''hi'') (start [Inl (u ''timeout''), Inl (u ''boom'')])) =
     Inr [(u ''Caller Notes'', u ''hi''), (u ''Sentiment Label'', u ''Unknown''),
          (u ''Reason'', [0x274C] @ u '' Both LLMs failed for sentiment: '' @ u ''boom''),
          (u ''Next Action Items'', [0x274C] @ u '' Skipped due to classification error'')] \<and>
   new_calls (start [Inl (u ''timeout''), Inl (u ''boom'')])
     (snd (classify_and_generate test_env (u ''hi'') (start [Inl (u ''timeout''), Inl (u ''boom'')]))) =
     [(Primary, sentiment_prompt_format (u ''hi''), Inl (u ''timeout'')),
      (Fallback, sentiment_prompt_format (u ''hi''), Inl (u ''boom''))]"
proof -
  have p: "invoke test_env Primary (sentiment_prompt_format (u ''hi''))
       (world (start [Inl (u ''timeout''), Inl (u ''boom'')])) =
     (Inl (u ''timeout''), [Inl (u ''boom'')])"
    by (simp add: test_env_def start_def)
  have q: "print_error test_env [Inl (u ''boom'')] (sentiment_failed_line (u ''timeout'')) = None"
    by (simp add: test_env_def)
  have f: "invoke test_env Fallback (sentiment_prompt_format (u ''hi'')) [Inl (u ''boom'')] =
     (Inl (u ''boom''), [])"
    by (simp add: test_env_def)
  note T = classification_failure_is_terminal [OF p q f]
  show ?thesis
    by (intro conjI p q f T [THEN conjunct1] T [THEN conjunct2, THEN conjunct1])
qed

text \<open>
  Claim C2 as it was stated asks for \<open>Next Action Items\<close> to be exactly
  \<open>skipped due to classification error\<close>.  On the run above the field holds the literal
  of line 112, which starts with U+274C and a capital letter.
\<close>

theorem classification_failure_counterexample:
  "invoke test_env Primary (sentiment_prompt_format (u ''hi''))
       (world (start [Inl (u ''timeout''), Inl (u ''boom'')])) =
     (Inl (u ''timeout''), [Inl (u ''boom'')]) \<and>
   print_error test_env [Inl (u ''boom'')] (sentiment_failed_line (u ''timeout'')) = None \<and>
   invoke test_env Fallback (sentiment_prompt_format (u ''hi'')) [Inl (u ''boom'')] =
     (Inl (u ''boom''), []) \<and>
   fst (classify_and_generate test_env (u ''hi'') (start [Inl (u ''timeout''), Inl (u ''boom'')])) =
     Inr [(u ''Caller Notes'', u ''hi''), (u ''Sentiment Label'', u ''Unknown''),
          (u ''Reason'', [0x274C] @ u '' Both LLMs failed for sentiment: '' @ u ''boom''),
          (u ''Next Action Items'', [0x274C] @ u '' Skipped due to classification error'')] \<and>
   [0x274C] @ u '' Skipped due to classification error'' \<noteq> u ''skipped due to classification error''"
proof -
  have p: "invoke test_env Primary (sentiment_prompt_format (u ''hi''))
       (world (start [Inl (u ''timeout''), Inl (u ''boom'')])) =
     (Inl (u ''timeout''), [Inl (u ''boom'')])"
    by (simp add: test_env_def start_def)
  have q: "print_error test_env [Inl (u ''boom'')] (sentiment_failed_line (u ''timeout'')) = None"
    by (simp add: test_env_def)
  have f: "invoke test_env Fallback (sentiment_prompt_format (u ''hi'')) [Inl (u ''boom'')] =
     (Inl (u ''boom''), [])"
    by (simp add: test_env_def)
  have d: "[0x274C] @ u '' Skipped due to classification error'' \<noteq>
      u ''skipped due to classification error''"
    by (simp add: u_def)
  have r: "fst (classify_and_generate test_env (u ''hi'')
        (start [Inl (u ''timeout''), Inl (u ''boom'')])) =
     Inr [(u ''Caller Notes'', u ''hi''), (u ''Sentiment Label'', u ''Unknown''),
          (u ''Reason'', [0x274C] @ u '' Both LLMs failed for sentiment: '' @ u ''boom''),
          (u ''Next Action Items'', [0x274C] @ u '' Skipped due to classification error'')]"
    by (simp only: classify_both_fail [OF p q f] fst_conv)
  show ?thesis
    by (intro conjI p q f r d)
qed

section \<open>More helper lemmas\<close>



lemma attempts_other: "q \<noteq> p \<Longrightarrow> attempts p (map (\<lambda>(b, r). (b, q, r)) xs) = []"
  by (induction xs) (auto simp: attempts_def)

lemma classified:
  assumes "invoke env Primary (sentiment_prompt_format notes) (world s) = (Inr c, w1) \<or>
     (invoke env Primary (sentiment_prompt_format notes) (world s) = (Inl e, w0) \<and>
      print_error env w0 (sentiment_failed_line e) = None \<and>
      invoke env Fallback (sentiment_prompt_format notes) w0 = (Inr c, w1))"
  obtains s1 xs where
    "classify_and_generate env notes s = after_classification env notes (py_strip c) s1"
    "world s1 = w1"
    "calls s1 = calls s @ map (\<lambda>(b, r). (b, sentiment_prompt_format notes, r)) xs"
    "chain_shape xs" "snd (last xs) = Inr c"
    "produced s1 = produced s"
  using assms
proof (elim disjE conjE)
  assume p: "invoke env Primary (sentiment_prompt_format notes) (world s) = (Inr c, w1)"
  show thesis
    by (rule that [OF classify_primary [OF p], of "[(Primary, Inr c)]"]) simp_all
next
  assume p: "invoke env Primary (sentiment_prompt_format notes) (world s) = (Inl e, w0)"
    and q: "print_error env w0 (sentiment_failed_line e) = None"
    and f: "invoke env Fallback (sentiment_prompt_format notes) w0 = (Inr c, w1)"
  show thesis
    by (rule that [OF classify_fallback [OF p q f], of "[(Primary, Inl e), (Fallback, Inr c)]"])
      simp_all
qed


section \<open>The sentiment gate\<close>

text \<open>
  Claim C3, as amended.  When classification succeeds, on the primary backend or after
  its failure (and the print of line 104) on the fallback, and the trimmed output, put
  in lower case, starts with \<open>negative\<close>, the engine returns at once:
  \<open>Sentiment Label\<close> is the trimmed output, \<open>Reason\<close> is \<open>Negative sentiment detected\<close>,
  \<open>Next Action Items\<close> is U+274C, a space and
  \<open>No action recommended due to negative sentiment.\<close> with its full stop, and no
  invocation with an action prompt is made.
\<close>

theorem negative_label_short_circuits:
  assumes "invoke env Primary (sentiment_prompt_format notes) (world s) = (Inr c, w1) \<or>
     (invoke env Primary (sentiment_prompt_format notes) (world s) = (Inl e, w0) \<and>
      print_error env w0 (sentiment_failed_line e) = None \<and>
      invoke env Fallback (sentiment_prompt_format notes) w0 = (Inr c, w1))"
    and "py_startswith (py_lower (lower_tbl env) (py_strip c)) (u ''negative'')"
  shows "fst (classify_and_generate env notes s) =
      Inr [(u ''Caller Notes'', notes), (u ''Sentiment Label'', py_strip c),
           (u ''Reason'', u ''Negative sentiment detected''),
           (u ''Next Action Items'',
              [0x274C] @ u '' No action recommended due to negative sentiment.'')] \<and>
    (\<forall>n l. attempts (action_prompt_format n l)
              (new_calls s (snd (classify_and_generate env notes s))) = [])"
proof -
  from assms(1) obtain s1 xs where
    run: "classify_and_generate env notes s = after_classification env notes (py_strip c) s1"
    and log: "calls s1 = calls s @ map (\<lambda>(b, r). (b, sentiment_prompt_format notes, r)) xs"
    by (rule classified)
  have stop: "after_classification env notes (py_strip c) s1 =
    (Inr [(u ''Caller Notes'', notes), (u ''Sentiment Label'', py_strip c),
          (u ''Reason'', u ''Negative sentiment detected''),
          (u ''Next Action Items'',
             [0x274C] @ u '' No action recommended due to negative sentiment.'')], s1)"
    using assms(2) by (rule after_classification_negative)
  have "new_calls s (snd (classify_and_generate env notes s)) =
      map (\<lambda>(b, r). (b, sentiment_prompt_format notes, r)) xs"
    by (rule new_calls_append) (simp add: run stop log)
  then have "\<forall>n l. attempts (action_prompt_format n l)
              (new_calls s (snd (classify_and_generate env notes s))) = []"
    by (simp add: attempts_other prompts_differ)
  then show ?thesis by (simp add: run stop)
qed

text \<open>The hypotheses of C3 hold for the label \<open>NEGATIVE - tone was curt\<close>, answered by the fallback.\<close>

theorem negative_label_short_circuits_witness:
  "invoke test_env Primary (sentiment_prompt_format (u ''hi''))
       (world (start [Inl (u ''timeout''), Inr (u '' NEGATIVE - tone was curt\<newline>'')])) =
     (Inl (u ''timeout''), [Inr (u '' NEGATIVE - tone was curt\<newline>'')]) \<and>
   print_error test_env [Inr (u '' NEGATIVE - tone was curt\<newline>'')]
       (sentiment_failed_line (u ''timeout'')) = None \<and>
   invoke test_env Fallback (sentiment_prompt_format (u ''hi''))
       [Inr (u '' NEGATIVE - tone was curt\<newline>'')] =
     (Inr (u '' NEGATIVE - tone was curt\<newline>''), []) \<and>
   py_startswith (py_lower (lower_tbl test_env) (py_strip (u '' NEGATIVE - tone was curt\<newline>'')))
     (u ''negative'') \<and>
   fst (classify_and_generate test_env (u ''hi'')
          (start [Inl (u ''timeout''), Inr (u '' NEGATIVE - tone was curt\<newline>'')])) =
     Inr [(u ''Caller Notes'', u ''hi''),
          (u ''Sentiment Label'', py_strip (u '' NEGATIVE - tone was curt\<newline>'')),
          (u ''Reason'', u ''Negative sentiment detected''),
          (u ''Next Action Items'',
             [0x274C] @ u '' No action recommended due to negative sentiment.'')]"
proof -
  have p: "invoke test_env Primary (sentiment_prompt_format (u ''hi''))
       (world (start [Inl (u ''timeout''), Inr (u '' NEGATIVE - tone was curt\<newline>'')])) =
     (Inl (u ''timeout''), [Inr (u '' NEGATIVE - tone was curt\<newline>'')])"
    by (simp add: test_env_def start_def)
  have q: "print_error test_env [Inr (u '' NEGATIVE - tone was curt\<newline>'')]
       (sentiment_failed_line (u ''timeout'')) = None"
    by (simp add: test_env_def)
  have f: "invoke test_env Fallback (sentiment_prompt_format (u ''hi''))
       [Inr (u '' NEGATIVE - tone was curt\<newline>'')] =
     (Inr (u '' NEGATIVE - tone was curt\<newline>''), [])"
    by (simp add: test_env_def)
  have g: "py_startswith
      (py_lower (lower_tbl test_env) (py_strip (u '' NEGATIVE - tone was curt\<newline>'')))
      (u ''negative'')"
    by (simp add: gate_eval)
  note T = negative_label_short_circuits [OF disjI2 [OF conjI [OF p conjI [OF q f]]] g]
  show ?thesis
    by (intro conjI p q f g T [THEN conjunct1])
qed

text \<open>
  Claim C3 as it was stated asks for \<open>Reason\<close> to be exactly
  \<open>negative sentiment detected\<close> and for \<open>Next Action Items\<close> to be exactly
  \<open>no action recommended due to negative sentiment\<close>.  For the output
  \<open>Negative: tone was dismissive\<close> the two fields hold the literals of lines 119 and 120.
\<close>

theorem negative_label_counterexample:
  "invoke test_env Primary (sentiment_prompt_format (u ''hi''))
       (world (start [Inr (u ''Negative: tone was dismissive'')])) =
     (Inr (u ''Negative: tone was dismissive''), []) \<and>
   py_startswith (py_lower (lower_tbl test_env) (py_strip (u ''Negative: tone was dismissive'')))
     (u ''negative'') \<and>
   fst (classify_and_generate test_env (u ''hi'')
          (start [Inr (u ''Negative: tone was dismissive'')])) =
     Inr [(u ''Caller Notes'', u ''hi''),
          (u ''Sentiment Label'', py_strip (u ''Negative: tone was dismissive'')),
          (u ''Reason'', u ''Negative sentiment detected''),
          (u ''Next Action Items'',
             [0x274C] @ u '' No action recommended due to negative sentiment.'')] \<and>
   u ''Negative sentiment detected'' \<noteq> u ''negative sentiment detected'' \<and>
   [0x274C] @ u '' No action recommended due to negative sentiment.'' \<noteq>
     u ''no action recommended due to negative sentiment''"
proof -
  have p: "invoke test_env Primary (sentiment_prompt_format (u ''hi''))
       (world (start [Inr (u ''Negative: tone was dismissive'')])) =
     (Inr (u ''Negative: tone was dismissive''), [])"
    by (simp add: test_env_def start_def)
  have g: "py_startswith
      (py_lower (lower_tbl test_env) (py_strip (u ''Negative: tone was dismissive'')))
      (u ''negative'')"
    by (simp add: gate_eval)
  have d: "u ''Negative sentiment detected'' \<noteq> u ''negative sentiment detected''"
    "[0x274C] @ u '' No action recommended due to negative sentiment.'' \<noteq>
      u ''no action recommended due to negative sentiment''"
    by (simp_all add: u_def)
  have r: "fst (classify_and_generate test_env (u ''hi'')
          (start [Inr (u ''Negative: tone was dismissive'')])) =
     Inr [(u ''Caller Notes'', u ''hi''),
          (u ''Sentiment Label'', py_strip (u ''Negative: tone was dismissive'')),
          (u ''Reason'', u ''Negative sentiment detected''),
          (u ''Next Action Items'',
             [0x274C] @ u '' No action recommended due to negative sentiment.'')]"
    by (simp only: classify_primary [OF p] after_classification_negative [OF g] fst_conv)
  show ?thesis
    by (intro conjI p g r d)
qed

section \<open>The action stage\<close>

text \<open>
  Claim C4.  When classification succeeds with a label that does not start with
  \<open>negative\<close> and both backends raise on the action prompt (the fallback is tried once
  the line of line 127 is printed), the engine still returns a dict and raises nothing:
  \<open>Sentiment Label\<close> is the classified label, \<open>Reason\<close> is
  \<open>Sentiment identified via Groq LLM\<close>, which reports the successful classification, and
  \<open>Next Action Items\<close> is a failure message that ends with the text of the fallback's
  exception.
\<close>

theorem action_failure_is_not_fatal:
  assumes "invoke env Primary (sentiment_prompt_format notes) (world s) = (Inr c, w1) \<or>
     (invoke env Primary (sentiment_prompt_format notes) (world s) = (Inl e, w0) \<and>
      print_error env w0 (sentiment_failed_line e) = None \<and>
      invoke env Fallback (sentiment_prompt_format notes) w0 = (Inr c, w1))"
    and "\<not> py_startswith (py_lower (lower_tbl env) (py_strip c)) (u ''negative'')"
    and "invoke env Primary (action_prompt_format notes (py_strip c)) w1 = (Inl e1, w2)"
    and "print_error env w2 (action_failed_line e1) = None"
    and "invoke env Fallback (action_prompt_format notes (py_strip c)) w2 = (Inl e2, w3)"
  shows "fst (classify_and_generate env notes s) =
      Inr [(u ''Caller Notes'', notes), (u ''Sentiment Label'', py_strip c),
           (u ''Reason'', u ''Sentiment identified via Groq LLM''),
           (u ''Next Action Items'',
              [0x274C] @ u '' Both LLMs failed for action generation: '' @ e2)]"
proof -
  from assms(1) obtain s1 xs where
    run: "classify_and_generate env notes s = after_classification env notes (py_strip c) s1"
    and w: "world s1 = w1"
    by (rule classified)
  have p: "invoke env Primary (action_prompt_format notes (py_strip c)) (world s1) = (Inl e1, w2)"
    using assms(3) w by simp
  show ?thesis
    by (simp add: run after_classification_other [OF assms(2)]
          generate_actions_fallback [OF p assms(4) assms(5)])
qed

text \<open>The hypotheses of C4 hold in a scripted world: one answer, then two exceptions.\<close>

theorem action_failure_is_not_fatal_witness:
  "invoke test_env Primary (sentiment_prompt_format (u ''hi''))
       (world (start [Inr (u ''Positive: interested''), Inl (u ''rate limit''), Inl (u ''model down'')])) =
     (Inr (u ''Positive: interested''), [Inl (u ''rate limit''), Inl (u ''model down'')]) \<and>
   \<not> py_startswith (py_lower (lower_tbl test_env) (py_strip (u ''Positive: interested'')))
     (u ''negative'') \<and>
   invoke test_env Primary (action_prompt_format (u ''hi'') (py_strip (u ''Positive: interested'')))
       [Inl (u ''rate limit''), Inl (u ''model down'')] =
     (Inl (u ''rate limit''), [Inl (u ''model down'')]) \<and>
   print_error test_env [Inl (u ''model down'')] (action_failed_line (u ''rate limit'')) = None \<and>
   invoke test_env Fallback (action_prompt_format (u ''hi'') (py_strip (u ''Positive: interested'')))
       [Inl (u ''model down'')] = (Inl (u ''model down''), []) \<and>
   fst (classify_and_generate test_env (u ''hi'')
          (start [Inr (u ''Positive: interested''), Inl (u ''rate limit''), Inl (u ''model down'')])) =
     Inr [(u ''Caller Notes'', u ''hi''),
          (u ''Sentiment Label'', py_strip (u ''Positive: interested'')),
          (u ''Reason'', u ''Sentiment identified via Groq LLM''),
          (u ''Next Action Items'',
             [0x274C] @ u '' Both LLMs failed for action generation: '' @ u ''model down'')]"
proof -
  have p: "invoke test_env Primary (sentiment_prompt_format (u ''hi''))
       (world (start [Inr (u ''Positive: interested''), Inl (u ''rate limit''), Inl (u ''model down'')])) =
     (Inr (u ''Positive: interested''), [Inl (u ''rate limit''), Inl (u ''model down'')])"
    by (simp add: test_env_def start_def)
  have g: "\<not> py_startswith
      (py_lower (lower_tbl test_env) (py_strip (u ''Positive: interested''))) (u ''negative'')"
    by (simp add: gate_eval)
  have a1: "invoke test_env Primary
       (action_prompt_format (u ''hi'') (py_strip (u ''Positive: interested'')))
       [Inl (u ''rate limit''), Inl (u ''model down'')] =
     (Inl (u ''rate limit''), [Inl (u ''model down'')])"
    by (simp add: test_env_def)
  have q: "print_error test_env [Inl (u ''model down'')] (action_failed_line (u ''rate limit'')) =
      None"
    by (simp add: test_env_def)
  have a2: "invoke test_env Fallback
       (action_prompt_format (u ''hi'') (py_strip (u ''Positive: interested'')))
       [Inl (u ''model down'')] = (Inl (u ''model down''), [])"
    by (simp add: test_env_def)
  show ?thesis
    by (intro conjI p g a1 q a2 action_failure_is_not_fatal [OF disjI1 [OF p] g a1 q a2])
qed

text \<open>
  Claim C6, as amended.  When classification succeeds with a label that does not start
  with \<open>negative\<close> and the action prompt is answered, by the primary backend or after
  its failure (and the print of line 127) by the fallback, \<open>Next Action Items\<close> is the
  answer with the white space at both ends removed and nothing else changed, and
  \<open>Reason\<close> is \<open>Sentiment identified via Groq LLM\<close>.
\<close>

theorem action_success_result:
  assumes "invoke env Primary (sentiment_prompt_format notes) (world s) = (Inr c, w1) \<or>
     (invoke env Primary (sentiment_prompt_format notes) (world s) = (Inl e, w0) \<and>
      print_error env w0 (sentiment_failed_line e) = None \<and>
      invoke env Fallback (sentiment_prompt_format notes) w0 = (Inr c, w1))"
    and "\<not> py_startswith (py_lower (lower_tbl env) (py_strip c)) (u ''negative'')"
    and "invoke env Primary (action_prompt_format notes (py_strip c)) w1 = (Inr a, w3) \<or>
     (invoke env Primary (action_prompt_format notes (py_strip c)) w1 = (Inl e1, w2) \<and>
      print_error env w2 (action_failed_line e1) = None \<and>
      invoke env Fallback (action_prompt_format notes (py_strip c)) w2 = (Inr a, w3))"
  shows "fst (classify_and_generate env notes s) =
      Inr [(u ''Caller Notes'', notes), (u ''Sentiment Label'', py_strip c),
           (u ''Reason'', u ''Sentiment identified via Groq LLM''),
           (u ''Next Action Items'', py_strip a)]"
proof -
  from assms(1) obtain s1 xs where
    run: "classify_and_generate env notes s = after_classification env notes (py_strip c) s1"
    and w: "world s1 = w1"
    by (rule classified)
  from assms(3) show ?thesis
  proof (elim disjE conjE)
    assume "invoke env Primary (action_prompt_format notes (py_strip c)) w1 = (Inr a, w3)"
    then have p: "invoke env Primary (action_prompt_format notes (py_strip c)) (world s1) = (Inr a, w3)"
      using w by simp
    show ?thesis
      by (simp add: run after_classification_other [OF assms(2)] generate_actions_primary [OF p])
  next
    assume "invoke env Primary (action_prompt_format notes (py_strip c)) w1 = (Inl e1, w2)"
      and q: "print_error env w2 (action_failed_line e1) = None"
      and f: "invoke env Fallback (action_prompt_format notes (py_strip c)) w2 = (Inr a, w3)"
    then have p: "invoke env Primary (action_prompt_format notes (py_strip c)) (world s1) = (Inl e1, w2)"
      using w by simp
    show ?thesis
      by (simp add: run after_classification_other [OF assms(2)]
            generate_actions_fallback [OF p q f])
  qed
qed

text \<open>The hypotheses of C6 hold in a scripted world where the fallback answers the action prompt.\<close>

theorem action_success_result_witness:
  "invoke test_env Primary (sentiment_prompt_format (u ''hi''))
       (world (start [Inr (u ''Positive: interested''), Inl (u ''rate limit''),
                      Inr (u ''  Send the pricing deck.\<newline>'')])) =
     (Inr (u ''Positive: interested''),
      [Inl (u ''rate limit''), Inr (u ''  Send the pricing deck.\<newline>'')]) \<and>
   \<not> py_startswith (py_lower (lower_tbl test_env) (py_strip (u ''Positive: interested'')))
     (u ''negative'') \<and>
   invoke test_env Primary (action_prompt_format (u ''hi'') (py_strip (u ''Positive: interested'')))
       [Inl (u ''rate limit''), Inr (u ''  Send the pricing deck.\<newline>'')] =
     (Inl (u ''rate limit''), [Inr (u ''  Send the pricing deck.\<newline>'')]) \<and>
   print_error test_env [Inr (u ''  Send the pricing deck.\<newline>'')]
       (action_failed_line (u ''rate limit'')) = None \<and>
   invoke test_env Fallback (action_prompt_format (u ''hi'') (py_strip (u ''Positive: interested'')))
       [Inr (u ''  Send the pricing deck.\<newline>'')] =
     (Inr (u ''  Send the pricing deck.\<newline>''), []) \<and>
   fst (classify_and_generate test_env (u ''hi'')
          (start [Inr (u ''Positive: interested''), Inl (u ''rate limit''),
                  Inr (u ''  Send the pricing deck.\<newline>'')])) =
     Inr [(u ''Caller Notes'', u ''hi''),
          (u ''Sentiment Label'', py_strip (u ''Positive: interested'')),
          (u ''Reason'', u ''Sentiment identified via Groq LLM''),
          (u ''Next Action Items'', py_strip (u ''  Send the pricing deck.\<newline>''))] \<and>
   py_strip (u ''  Send the pricing deck.\<newline>'') = u ''Send the pricing deck.''"
proof -
  have p: "invoke test_env Primary (sentiment_prompt_format (u ''hi''))
       (world (start [Inr (u ''Positive: interested''), Inl (u ''rate limit''),
                      Inr (u ''  Send the pricing deck.\<newline>'')])) =
     (Inr (u ''Positive: interested''),
      [Inl (u ''rate limit''), Inr (u ''  Send the pricing deck.\<newline>'')])"
    by (simp add: test_env_def start_def)
  have g: "\<not> py_startswith
      (py_lower (lower_tbl test_env) (py_strip (u ''Positive: interested''))) (u ''negative'')"
    by (simp add: gate_eval)
  have a1: "invoke test_env Primary
       (action_prompt_format (u ''hi'') (py_strip (u ''Positive: interested'')))
       [Inl (u ''rate limit''), Inr (u ''  Send the pricing deck.\<newline>'')] =
     (Inl (u ''rate limit''), [Inr (u ''  Send the pricing deck.\<newline>'')])"
    by (simp add: test_env_def)
  have q: "print_error test_env [Inr (u ''  Send the pricing deck.\<newline>'')]
       (action_failed_line (u ''rate limit'')) = None"
    by (simp add: test_env_def)
  have a2: "invoke test_env Fallback
       (action_prompt_format (u ''hi'') (py_strip (u ''Positive: interested'')))
       [Inr (u ''  Send the pricing deck.\<newline>'')] =
     (Inr (u ''  Send the pricing deck.\<newline>''), [])"
    by (simp add: test_env_def)
  have t: "py_strip (u ''  Send the pricing deck.\<newline>'') = u ''Send the pricing deck.''"
    by (simp add: u_def py_strip_def py_isspace_def)
  show ?thesis
    by (intro conjI p g a1 q a2 t
          action_success_result [OF disjI1 [OF p] g disjI2 [OF conjI [OF a1 conjI [OF q a2]]]])
qed

text \<open>
  Claim C6 as it was stated asks for \<open>Reason\<close> to be exactly
  \<open>sentiment identified via generation backend\<close>.  On a run where both prompts are
  answered at once the field holds the literal of line 136.
\<close>

theorem action_success_counterexample:
  "invoke test_env Primary (sentiment_prompt_format (u ''hi''))
       (world (start [Inr (u ''Positive: interested''), Inr (u ''Send the pricing deck.'')])) =
     (Inr (u ''Positive: interested''), [Inr (u ''Send the pricing deck.'')]) \<and>
   \<not> py_startswith (py_lower (lower_tbl test_env) (py_strip (u ''Positive: interested'')))
     (u ''negative'') \<and>
   invoke test_env Primary (action_prompt_format (u ''hi'') (py_strip (u ''Positive: interested'')))
       [Inr (u ''Send the pricing deck.'')] =
     (Inr (u ''Send the pricing deck.''), []) \<and>
   fst (classify_and_generate test_env (u ''hi'')
          (start [Inr (u ''Positive: interested''), Inr (u ''Send the pricing deck.'')])) =
     Inr [(u ''Caller Notes'', u ''hi''),
          (u ''Sentiment Label'', py_strip (u ''Positive: interested'')),
          (u ''Reason'', u ''Sentiment identified via Groq LLM''),
          (u ''Next Action Items'', py_strip (u ''Send the pricing deck.''))] \<and>
   u ''Sentiment identified via Groq LLM'' \<noteq> u ''sentiment identified via generation backend''"
proof -
  let ?s = "start [Inr (u ''Positive: interested''), Inr (u ''Send the pricing deck.'')]"
  have p: "invoke test_env Primary (sentiment_prompt_format (u ''hi'')) (world ?s) =
     (Inr (u ''Positive: interested''), [Inr (u ''Send the pricing deck.'')])"
    by (simp add: test_env_def start_def)
  have g: "\<not> py_startswith
      (py_lower (lower_tbl test_env) (py_strip (u ''Positive: interested''))) (u ''negative'')"
    by (simp add: gate_eval)
  have a1: "invoke test_env Primary
       (action_prompt_format (u ''hi'') (py_strip (u ''Positive: interested'')))
       [Inr (u ''Send the pricing deck.'')] =
     (Inr (u ''Send the pricing deck.''), [])"
    by (simp add: test_env_def)
  have a1': "invoke test_env Primary
       (action_prompt_format (u ''hi'') (py_strip (u ''Positive: interested'')))
       (world (?s\<lparr>world := [Inr (u ''Send the pricing deck.'')],
                 calls := calls ?s @ [(Primary, sentiment_prompt_format (u ''hi''),
                                       Inr (u ''Positive: interested''))]\<rparr>)) =
     (Inr (u ''Send the pricing deck.''), [])"
    by (simp add: test_env_def)
  have d: "u ''Sentiment identified via Groq LLM'' \<noteq> u ''sentiment identified via generation backend''"
    by (simp add: u_def)
  have r: "fst (classify_and_generate test_env (u ''hi'') ?s) =
     Inr [(u ''Caller Notes'', u ''hi''),
          (u ''Sentiment Label'', py_strip (u ''Positive: interested'')),
          (u ''Reason'', u ''Sentiment identified via Groq LLM''),
          (u ''Next Action Items'', py_strip (u ''Send the pricing deck.''))]"
    by (simp only: classify_primary [OF p] after_classification_other [OF g]
          generate_actions_primary [OF a1'] fst_conv)
  show ?thesis
    by (intro conjI p g a1 r d)
qed



section \<open>The failover between the two backends\<close>








section \<open>The loop around the engine\<close>














end
